theory Spec2Isabelle
  imports Complex_Main "HOL-Library.Sublist" "HOL-Library.Multiset" "HOL-Library.AList"
begin

section \<open>Errors and results\<close>

text \<open>
  The Python of \<^verbatim>\<open>main.py\<close> raises exceptions; the model returns them as values.
  \<^item> \<open>ValueError msg\<close>: the \<^verbatim>\<open>raise ValueError(msg)\<close> of \<^verbatim>\<open>make_circuit_with_error\<close>,
    with its message;
  \<^item> \<open>InvalidLiteral s\<close>: the \<^verbatim>\<open>ValueError\<close> that Python's \<^verbatim>\<open>int(s)\<close> raises on a string
    that is no decimal literal, with the offending string;
  \<^item> \<open>CircuitError\<close>: what the circuit library raises when a qubit or clbit argument
    does not name a bit of the circuit;
  \<^item> \<open>KeyError k\<close>: a dictionary read at a key it does not hold;
  \<^item> \<open>StopIteration\<close>: what the plotting library raises on counts that hold no outcome;
  \<^item> \<open>BackendFailure msg\<close>: any exception of the execution backend.
\<close>

datatype py_error =
    ValueError string
  | InvalidLiteral string
  | CircuitError
  | KeyError string
  | StopIteration
  | BackendFailure string

type_synonym 'a result = "py_error + 'a"

definition bind_res :: "'a result \<Rightarrow> ('a \<Rightarrow> 'b result) \<Rightarrow> 'b result" where
  "bind_res m f = (case m of Inl e \<Rightarrow> Inl e | Inr x \<Rightarrow> f x)"

text \<open>A list comprehension whose body may raise: it stops at the first exception.\<close>

primrec map_res :: "('a \<Rightarrow> 'b result) \<Rightarrow> 'a list \<Rightarrow> 'b list result" where
  "map_res f [] = Inr []"
| "map_res f (x # xs) =
     (case f x of
        Inl e \<Rightarrow> Inl e
      | Inr y \<Rightarrow> (case map_res f xs of Inl e \<Rightarrow> Inl e | Inr ys \<Rightarrow> Inr (y # ys)))"

section \<open>The decoder: \<^verbatim>\<open>majority_from_key\<close> (main.py, lines 98-101)\<close>

text \<open>
  \<^verbatim>\<open>int(b)\<close> for a one-character string \<open>b\<close>: a decimal digit gives its value, every
  other character raises. (Keys are ASCII; a \<open>char\<close> is one byte.)
\<close>

definition py_int_char :: "char \<Rightarrow> int result" where
  "py_int_char b =
     (if b = CHR ''0'' then Inr 0 else if b = CHR ''1'' then Inr 1
      else if b = CHR ''2'' then Inr 2 else if b = CHR ''3'' then Inr 3
      else if b = CHR ''4'' then Inr 4 else if b = CHR ''5'' then Inr 5
      else if b = CHR ''6'' then Inr 6 else if b = CHR ''7'' then Inr 7
      else if b = CHR ''8'' then Inr 8 else if b = CHR ''9'' then Inr 9
      else Inl (InvalidLiteral [b]))"

text \<open>
  \<^verbatim>\<open>
  def majority_from_key(key):
      bits = [int(b) for b in key[::-1]]
      maj = 1 if sum(bits) >= 2 else 0
      return maj
  \<close>
\<close>

definition majority_from_key :: "string \<Rightarrow> int result" where
  "majority_from_key key =
     (case map_res py_int_char (rev key) of
        Inl e \<Rightarrow> Inl e
      | Inr bits \<Rightarrow> Inr (if sum_list bits \<ge> 2 then 1 else 0))"

text \<open>A bitstring: every character is \<open>0\<close> or \<open>1\<close>. \<open>ones key\<close> counts its 1-bits.\<close>

definition is_bitstring :: "string \<Rightarrow> bool" where
  "is_bitstring key = list_all (\<lambda>c. c = CHR ''0'' \<or> c = CHR ''1'') key"

definition ones :: "string \<Rightarrow> nat" where
  "ones key = count_list key (CHR ''1'')"

text \<open>The number of positions where two outcomes of the same length differ.\<close>

definition hamming :: "string \<Rightarrow> string \<Rightarrow> nat" where
  "hamming xs ys = length (filter (\<lambda>(x, y). x \<noteq> y) (zip xs ys))"

section \<open>Circuits\<close>

text \<open>
  A circuit is what the program builds through the circuit library's \<^verbatim>\<open>QuantumCircuit\<close>:
  its name, the number of its qubits and classical bits, and the ordered list of its
  instructions. \<open>Composite name body qargs\<close> is a circuit turned into one instruction
  (\<^verbatim>\<open>to_instruction\<close>) and appended on the qubits \<open>qargs\<close>: qubit \<open>i\<close> of \<open>body\<close> is
  qubit \<open>qargs ! i\<close> of the circuit that holds it.
\<close>

datatype instruction =
    XGate nat
  | HGate nat
  | CXGate nat nat
  | Measure nat nat
  | Composite string "instruction list" "nat list"

record quantum_circuit =
  qc_name :: string
  num_qubits :: nat
  num_clbits :: nat
  data :: "instruction list"

definition QuantumCircuit :: "string \<Rightarrow> nat \<Rightarrow> nat \<Rightarrow> quantum_circuit" where
  "QuantumCircuit nm nq nc = \<lparr>qc_name = nm, num_qubits = nq, num_clbits = nc, data = []\<rparr>"

text \<open>
  The library resolves an integer bit argument by indexing the circuit's list of bits as
  Python indexes a list: \<open>0 .. n-1\<close> from the front, \<open>-1 .. -n\<close> from the back, and
  anything else raises (the \<^verbatim>\<open>IndexError\<close> is re-raised as the library's
  \<^verbatim>\<open>CircuitError\<close>). The program itself checks no index: \<^verbatim>\<open>qc.x(error_on)\<close> hands
  \<^verbatim>\<open>error_on\<close> to the library as it is.
\<close>

definition bit_index :: "nat \<Rightarrow> int \<Rightarrow> nat result" where
  "bit_index n i =
     (if 0 \<le> i \<and> i < int n then Inr (nat i)
      else if - int n \<le> i \<and> i < 0 then Inr (nat (int n + i))
      else Inl CircuitError)"

definition add_instr :: "quantum_circuit \<Rightarrow> instruction list \<Rightarrow> quantum_circuit" where
  "add_instr qc ins = qc\<lparr>data := data qc @ ins\<rparr>"

definition qc_x :: "quantum_circuit \<Rightarrow> int \<Rightarrow> quantum_circuit result" where
  "qc_x qc i = bind_res (bit_index (num_qubits qc) i) (\<lambda>q. Inr (add_instr qc [XGate q]))"

definition qc_h :: "quantum_circuit \<Rightarrow> int \<Rightarrow> quantum_circuit result" where
  "qc_h qc i = bind_res (bit_index (num_qubits qc) i) (\<lambda>q. Inr (add_instr qc [HGate q]))"

text \<open>A two-qubit gate on one qubit twice is refused by the library.\<close>

definition qc_cx :: "quantum_circuit \<Rightarrow> int \<Rightarrow> int \<Rightarrow> quantum_circuit result" where
  "qc_cx qc c t =
     bind_res (bit_index (num_qubits qc) c) (\<lambda>c'.
     bind_res (bit_index (num_qubits qc) t) (\<lambda>t'.
       if c' = t' then Inl CircuitError else Inr (add_instr qc [CXGate c' t'])))"

text \<open>
  \<^verbatim>\<open>circ.to_instruction()\<close>: the number of qubits the instruction takes, and the
  instruction once its qubits are given.
\<close>

definition to_instruction :: "quantum_circuit \<Rightarrow> nat \<times> (nat list \<Rightarrow> instruction)" where
  "to_instruction qc = (num_qubits qc, Composite (qc_name qc) (data qc))"

definition qc_append ::
  "quantum_circuit \<Rightarrow> nat \<times> (nat list \<Rightarrow> instruction) \<Rightarrow> int list \<Rightarrow> quantum_circuit result" where
  "qc_append qc ins qargs =
     bind_res (map_res (bit_index (num_qubits qc)) qargs) (\<lambda>qs.
       if length qs \<noteq> fst ins \<or> \<not> distinct qs then Inl CircuitError
       else Inr (add_instr qc [snd ins qs]))"

text \<open>
  \<^verbatim>\<open>qc.measure(qubits, clbits)\<close>: one measurement per pair; a single qubit is measured
  into each of several classical bits; other shapes are refused.
\<close>

definition qc_measure :: "quantum_circuit \<Rightarrow> int list \<Rightarrow> int list \<Rightarrow> quantum_circuit result" where
  "qc_measure qc qargs cargs =
     bind_res (map_res (bit_index (num_qubits qc)) qargs) (\<lambda>qs.
     bind_res (map_res (bit_index (num_clbits qc)) cargs) (\<lambda>cs.
       if length qs = length cs then Inr (add_instr qc (map (\<lambda>(q, c). Measure q c) (zip qs cs)))
       else if length qs = 1 \<and> cs \<noteq> [] then Inr (add_instr qc (map (Measure (hd qs)) cs))
       else Inl CircuitError))"

section \<open>Building the circuits (main.py, lines 9-68)\<close>

text \<open>
  \<^verbatim>\<open>
  def encode_bitflip(msg_qubit_index=0):
      qc = QuantumCircuit(3, name="encode")
      qc.cx(0, 1)
      qc.cx(0, 2)
      return qc
  \<close>
  The argument is not read.
\<close>

definition encode_bitflip :: "int \<Rightarrow> quantum_circuit result" where
  "encode_bitflip msg_qubit_index =
     bind_res (qc_cx (QuantumCircuit ''encode'' 3 0) 0 1) (\<lambda>qc.
     bind_res (qc_cx qc 0 2) (\<lambda>qc. Inr qc))"

text \<open>
  \<^verbatim>\<open>
  def decode_bitflip():
      qc = QuantumCircuit(3, name="decode")
      qc.cx(0, 2)
      qc.cx(0, 1)
      return qc
  \<close>
\<close>

definition decode_bitflip :: "quantum_circuit result" where
  "decode_bitflip =
     bind_res (qc_cx (QuantumCircuit ''decode'' 3 0) 0 2) (\<lambda>qc.
     bind_res (qc_cx qc 0 1) (\<lambda>qc. Inr qc))"

text \<open>
  Lines 47-55 of \<^verbatim>\<open>make_circuit_with_error\<close>, the preparation of the logical qubit:
  \<^verbatim>\<open>
  if state_prep == 'zero':
      pass
  elif state_prep == 'one':
      qc.x(0)
  elif state_prep == 'plus':
      qc.h(0)
  else:
      raise ValueError("state_prep not in ['zero','one','plus']")
  \<close>
\<close>

definition prepare_logical :: "quantum_circuit \<Rightarrow> string \<Rightarrow> quantum_circuit result" where
  "prepare_logical qc state_prep =
     (if state_prep = ''zero'' then Inr qc
      else if state_prep = ''one'' then qc_x qc 0
      else if state_prep = ''plus'' then qc_h qc 0
      else Inl (ValueError ''state_prep not in ['zero','one','plus']''))"

text \<open>
  \<^verbatim>\<open>
  def make_circuit_with_error(state_prep='plus', error_on=1):
      qr = QuantumRegister(3, 'q')
      cr = ClassicalRegister(3, 'c')
      qc = QuantumCircuit(qr, cr, name="3q_bitflip_demo")
      ... (lines 47-55)
      qc.append(encode_bitflip().to_instruction(), [0,1,2])
      qc.x(error_on)
      qc.append(decode_bitflip().to_instruction(), [0,1,2])
      qc.measure([0,1,2], [0,1,2])
      return qc
  \<close>
\<close>

definition make_circuit_with_error :: "string \<Rightarrow> int \<Rightarrow> quantum_circuit result" where
  "make_circuit_with_error state_prep error_on =
     bind_res (prepare_logical (QuantumCircuit ''3q_bitflip_demo'' 3 3) state_prep) (\<lambda>qc.
     bind_res (encode_bitflip 0) (\<lambda>enc.
     bind_res (qc_append qc (to_instruction enc) [0, 1, 2]) (\<lambda>qc.
     bind_res (qc_x qc error_on) (\<lambda>qc.
     bind_res decode_bitflip (\<lambda>dec.
     bind_res (qc_append qc (to_instruction dec) [0, 1, 2]) (\<lambda>qc.
     qc_measure qc [0, 1, 2] [0, 1, 2]))))))"

section \<open>Running a circuit on a basis state\<close>

text \<open>
  The execution backend is not part of the program. For the circuits built from \<open>zero\<close>
  and \<open>one\<close> its behaviour is fixed by the gates: a bit-flip, a controlled-NOT and a
  measurement each send a computational basis state to one basis state, so every shot
  gives the same outcome (probability 1). \<open>exec_list\<close> runs such a circuit on the pair
  (qubits, classical bits). A Hadamard gate leaves the basis states: the run is \<open>None\<close>,
  and so is a run that names a bit the state does not have.
\<close>

definition scatter :: "nat list \<Rightarrow> bool list \<Rightarrow> bool list \<Rightarrow> bool list" where
  "scatter qargs loc qs = fold (\<lambda>(q, v) acc. acc[q := v]) (zip qargs loc) qs"

fun exec_instr :: "instruction \<Rightarrow> bool list \<times> bool list \<Rightarrow> (bool list \<times> bool list) option"
  and exec_list :: "instruction list \<Rightarrow> bool list \<times> bool list \<Rightarrow> (bool list \<times> bool list) option"
  where
  "exec_instr (XGate q) (qs, cs) =
     (if q < length qs then Some (qs[q := \<not> qs ! q], cs) else None)"
| "exec_instr (HGate q) (qs, cs) = None"
| "exec_instr (CXGate c t) (qs, cs) =
     (if c < length qs \<and> t < length qs \<and> c \<noteq> t
      then Some (if qs ! c then qs[t := \<not> qs ! t] else qs, cs) else None)"
| "exec_instr (Measure q c) (qs, cs) =
     (if q < length qs \<and> c < length cs then Some (qs, cs[c := qs ! q]) else None)"
| "exec_instr (Composite nm body qargs) (qs, cs) =
     (if list_all (\<lambda>q. q < length qs) qargs \<and> distinct qargs
      then (case exec_list body (map (\<lambda>q. qs ! q) qargs, []) of
              None \<Rightarrow> None
            | Some (loc, _) \<Rightarrow> Some (scatter qargs loc qs, cs))
      else None)"
| "exec_list [] s = Some s"
| "exec_list (i # ins) s =
     (case exec_instr i s of None \<Rightarrow> None | Some s' \<Rightarrow> exec_list ins s')"

text \<open>
  The key of an outcome in the backend's counts, as the program's comments fix it
  (``c2 c1 c0'', ``c0 is lower index -> reverse''): classical bit 0 is the last character.
\<close>

definition format_key :: "bool list \<Rightarrow> string" where
  "format_key cs = rev (map (\<lambda>b. if b then CHR ''1'' else CHR ''0'') cs)"

definition ideal_outcome :: "quantum_circuit \<Rightarrow> string option" where
  "ideal_outcome qc =
     (case exec_list (data qc) (replicate (num_qubits qc) False, replicate (num_clbits qc) False) of
        None \<Rightarrow> None
      | Some (qs, cs) \<Rightarrow> Some (format_key cs))"

text \<open>
  The full pipeline for one trial: build the circuit, run it, take the majority vote of
  the measured key. \<open>None\<close> when the circuit has no single outcome.
\<close>

definition measured_key :: "string \<Rightarrow> int \<Rightarrow> string option" where
  "measured_key state_prep error_on =
     (case make_circuit_with_error state_prep error_on of
        Inl e \<Rightarrow> None
      | Inr qc \<Rightarrow> ideal_outcome qc)"

definition decoded_bit :: "string \<Rightarrow> int \<Rightarrow> int option" where
  "decoded_bit state_prep error_on =
     (case measured_key state_prep error_on of
        None \<Rightarrow> None
      | Some key \<Rightarrow> (case majority_from_key key of Inl e \<Rightarrow> None | Inr maj \<Rightarrow> Some maj))"

text \<open>The logical bit a basis state stands for.\<close>

definition logical_bit :: "string \<Rightarrow> int option" where
  "logical_bit state_prep =
     (if state_prep = ''zero'' then Some 0 else if state_prep = ''one'' then Some 1 else None)"

text \<open>
  The pipeline of \<open>make_circuit_with_error\<close> with a list of injected bit-flips in the
  place of its one \<^verbatim>\<open>qc.x(error_on)\<close>: prepare, encode, inject each fault in turn, decode,
  measure. The program builds it for exactly one fault (\<open>pipeline_single\<close> below); the
  zero-fault round trip and the two-fault configurations are stated on it.
\<close>

primrec inject_all :: "quantum_circuit \<Rightarrow> int list \<Rightarrow> quantum_circuit result" where
  "inject_all qc [] = Inr qc"
| "inject_all qc (e # es) = bind_res (qc_x qc e) (\<lambda>qc'. inject_all qc' es)"

definition pipeline_circuit :: "string \<Rightarrow> int list \<Rightarrow> quantum_circuit result" where
  "pipeline_circuit state_prep faults =
     bind_res (prepare_logical (QuantumCircuit ''3q_bitflip_demo'' 3 3) state_prep) (\<lambda>qc.
     bind_res (encode_bitflip 0) (\<lambda>enc.
     bind_res (qc_append qc (to_instruction enc) [0, 1, 2]) (\<lambda>qc.
     bind_res (inject_all qc faults) (\<lambda>qc.
     bind_res decode_bitflip (\<lambda>dec.
     bind_res (qc_append qc (to_instruction dec) [0, 1, 2]) (\<lambda>qc.
     qc_measure qc [0, 1, 2] [0, 1, 2]))))))"

definition pipeline_vote :: "string \<Rightarrow> int list \<Rightarrow> int option" where
  "pipeline_vote state_prep faults =
     (case pipeline_circuit state_prep faults of
        Inl e \<Rightarrow> None
      | Inr qc \<Rightarrow>
          (case ideal_outcome qc of
             None \<Rightarrow> None
           | Some key \<Rightarrow> (case majority_from_key key of Inl e \<Rightarrow> None | Inr maj \<Rightarrow> Some maj)))"

section \<open>The harness: \<^verbatim>\<open>run_demo\<close> (main.py, lines 72-113)\<close>

text \<open>
  The counts of one trial are a dictionary from outcome keys to numbers of shots, kept
  in insertion order. The backend is outside the program: \<open>run_demo\<close> takes it as a
  parameter, a function from its own state, a circuit and a number of shots to the
  counts (or its failure) and its next state. One application of it stands for
  \<^verbatim>\<open>execute(circ, backend=backend, shots=shots).result().get_counts()\<close>.
\<close>

type_synonym counts = "(string \<times> int) list"

type_synonym 'b backend = "'b \<Rightarrow> quantum_circuit \<Rightarrow> int \<Rightarrow> counts result \<times> 'b"

text \<open>
  The plotting library is outside the program too, and \<^verbatim>\<open>plot_histogram\<close> can raise (on
  counts with no outcome it does). \<open>run_demo\<close> takes it as a parameter: for the counts it is
  given, the exception it raises, or \<open>None\<close> when the histogram is drawn.
\<close>

type_synonym plotter = "counts \<Rightarrow> py_error option"

text \<open>What the run shows: a histogram with its title, the figure, a printed line, printed counts.\<close>

datatype display = Plot string counts | Show | PrintText string | PrintCounts counts

text \<open>
  The state of \<open>run_demo\<close> when it returns: the dictionary \<^verbatim>\<open>histograms\<close>, what was plotted
  and printed, and the last values of the locals \<^verbatim>\<open>total\<close> and \<^verbatim>\<open>correct\<close>.
\<close>

record demo_report =
  histograms :: "(string \<times> counts) list"
  shown :: "display list"
  final_total :: int
  final_correct :: int

definition states :: "string list" where
  "states = [''zero'', ''one'', ''plus'']"

definition dict_get :: "(string \<times> 'v) list \<Rightarrow> string \<Rightarrow> 'v result" where
  "dict_get d k = (case map_of d k of None \<Rightarrow> Inl (KeyError k) | Some v \<Rightarrow> Inr v)"

text \<open>
  Lines 78-85:
  \<^verbatim>\<open>
  for s in states:
      circ = make_circuit_with_error(state_prep=s, error_on=1)
      job = execute(circ, backend=backend, shots=shots)
      result = job.result()
      counts = result.get_counts()
      histograms[s] = counts
  \<close>
\<close>

fun run_trials ::
  "'b backend \<Rightarrow> int \<Rightarrow> string list \<Rightarrow> (string \<times> counts) list \<Rightarrow> 'b
     \<Rightarrow> (string \<times> counts) list result \<times> 'b" where
  "run_trials ex shots [] hs b = (Inr hs, b)"
| "run_trials ex shots (s # ss) hs b =
     (case make_circuit_with_error s 1 of
        Inl e \<Rightarrow> (Inl e, b)
      | Inr circ \<Rightarrow>
          (case ex b circ shots of
             (Inl e, b') \<Rightarrow> (Inl e, b')
           | (Inr cnts, b') \<Rightarrow> run_trials ex shots ss (AList.update s cnts hs) b'))"

text \<open>
  Lines 105-110: the loop over the counts of \<open>plus\<close>, whose body is \<^verbatim>\<open>pass\<close>:
  \<^verbatim>\<open>
  for key, n in counts_plus.items():
      pass
  \<close>
\<close>

primrec tally_loop :: "counts \<Rightarrow> int \<Rightarrow> int" where
  "tally_loop [] correct = correct"
| "tally_loop (kn # rest) correct = tally_loop rest correct"

definition plot_title :: "string \<Rightarrow> string" where
  "plot_title s = ''Input |'' @ s @ ''> with X on qubit 1''"

text \<open>
  \<^verbatim>\<open>
  def run_demo(shots=4096):
      backend = Aer.get_backend('qasm_simulator')
      states = ['zero', 'one', 'plus']
      histograms = {}
      ... (lines 78-85)
      fig, axs = plt.subplots(1, 3, figsize=(12,3))
      for ax, s in zip(axs, states):
          plot_histogram(histograms[s], ax=ax)
          ax.set_title(f"Input |{s}> with X on qubit 1")
      plt.tight_layout()
      plt.show()
      counts_plus = histograms['plus']
      def majority_from_key(key): ...
      total = sum(counts_plus.values())
      correct = 0
      ... (lines 105-110)
      print("Raw counts for |+> (Z-basis measurement):")
      print(counts_plus)
  \<close>
\<close>

definition run_demo ::
  "'b backend \<Rightarrow> plotter \<Rightarrow> 'b \<Rightarrow> int \<Rightarrow> demo_report result \<times> 'b" where
  "run_demo ex plot_histogram b shots =
     (case run_trials ex shots states [] b of
        (Inl e, b') \<Rightarrow> (Inl e, b')
      | (Inr hs, b') \<Rightarrow>
          (bind_res
             (map_res (\<lambda>s. bind_res (dict_get hs s) (\<lambda>h.
                (case plot_histogram h of
                   Some e \<Rightarrow> Inl e
                 | None \<Rightarrow> Inr (Plot (plot_title s) h)))) states)
             (\<lambda>plots.
           bind_res (dict_get hs ''plus'') (\<lambda>counts_plus.
             Inr \<lparr>histograms = hs,
                  shown = plots @ [Show,
                    PrintText ''Raw counts for |+> (Z-basis measurement):'',
                    PrintCounts counts_plus],
                  final_total = sum_list (map snd counts_plus),
                  final_correct = tally_loop counts_plus 0\<rparr>)), b'))"


text \<open>A backend that runs nothing and returns the counts it is told to, for every circuit.\<close>

definition fixed_backend :: "counts \<Rightarrow> unit backend" where
  "fixed_backend cnts = (\<lambda>b circ shots. (Inr cnts, b))"


text \<open>A plotter that draws every histogram but the one of empty counts, on which it raises.\<close>

definition plot_nonempty :: plotter where
  "plot_nonempty cnts = (if cnts = [] then Some StopIteration else None)"

section \<open>The vote on bitstrings\<close>

lemma map_res_bits:
  "is_bitstring key \<Longrightarrow>
   map_res py_int_char key = Inr (map (\<lambda>c. if c = CHR ''1'' then 1 else 0) key)"
  by (induction key) (auto simp: is_bitstring_def py_int_char_def)

lemma sum_list_bits:
  "sum_list (map (\<lambda>c. if c = CHR ''1'' then 1 else 0) key) = int (ones key)"
  by (induction key) (auto simp: ones_def)

lemma is_bitstring_rev: "is_bitstring (rev key) = is_bitstring key"
  by (simp add: is_bitstring_def list_all_iff)

lemma ones_rev: "ones (rev key) = ones key"
  by (induction key) (auto simp: ones_def)

lemma is_bitstring_mset: "mset key' = mset key \<Longrightarrow> is_bitstring key' = is_bitstring key"
proof -
  assume "mset key' = mset key"
  then have "set key' = set key" by (rule mset_eq_setD)
  then show ?thesis by (simp add: is_bitstring_def list_all_iff)
qed

lemma ones_mset: "mset key' = mset key \<Longrightarrow> ones key' = ones key"
proof -
  assume "mset key' = mset key"
  then have "count (mset key') (CHR ''1'') = count (mset key) (CHR ''1'')" by simp
  then show ?thesis by (simp add: ones_def count_mset)
qed

text \<open>
  On a bitstring the vote never fails, and it is 1 exactly when the key holds at least
  two 1-bits, whatever its length.
\<close>

lemma majority_of_bitstring:
  assumes "is_bitstring key"
  shows "majority_from_key key = Inr (if 2 \<le> ones key then 1 else 0)"
proof -
  have "is_bitstring (rev key)"
    using assms by (simp add: is_bitstring_rev)
  then have "map_res py_int_char (rev key)
      = Inr (map (\<lambda>c. if c = CHR ''1'' then 1 else 0) (rev key))"
    by (rule map_res_bits)
  then show ?thesis
    by (simp add: majority_from_key_def sum_list_bits ones_rev)
qed

section \<open>Facts about the circuits\<close>

lemmas circuit_defs =
  bind_res_def bit_index_def add_instr_def QuantumCircuit_def
  qc_x_def qc_h_def qc_cx_def qc_append_def qc_measure_def to_instruction_def

text \<open>Both builders succeed, with these two controlled-NOTs each.\<close>

lemma encode_bitflip_eq:
  "encode_bitflip m =
     Inr \<lparr>qc_name = ''encode'', num_qubits = 3, num_clbits = 0,
          data = [CXGate 0 1, CXGate 0 2]\<rparr>"
  by (simp add: encode_bitflip_def circuit_defs)

lemma decode_bitflip_eq:
  "decode_bitflip =
     Inr \<lparr>qc_name = ''decode'', num_qubits = 3, num_clbits = 0,
          data = [CXGate 0 2, CXGate 0 1]\<rparr>"
  by (simp add: decode_bitflip_def circuit_defs)

text \<open>Decoding after encoding leaves every basis state of the three qubits as it was.\<close>

lemma exec_encode_decode:
  "exec_list [CXGate 0 1, CXGate 0 2, CXGate 0 2, CXGate 0 1] ([a, b, c], cs) = Some ([a, b, c], cs)"
  by (cases a) simp_all

lemma exec_encode_decode_composite:
  "exec_list [Composite ''encode'' [CXGate 0 1, CXGate 0 2] [0, 1, 2],
              Composite ''decode'' [CXGate 0 2, CXGate 0 1] [0, 1, 2]] ([a, b, c], cs)
   = Some ([a, b, c], cs)"
  by (cases a) (simp_all add: scatter_def)

lemma prepare_logical_eq:
  "prepare_logical (QuantumCircuit nm (Suc n) nc) s =
     (if s = ''zero'' then Inr (QuantumCircuit nm (Suc n) nc)
      else if s = ''one'' then Inr ((QuantumCircuit nm (Suc n) nc)\<lparr>data := [XGate 0]\<rparr>)
      else if s = ''plus'' then Inr ((QuantumCircuit nm (Suc n) nc)\<lparr>data := [HGate 0]\<rparr>)
      else Inl (ValueError ''state_prep not in ['zero','one','plus']''))"
  by (simp add: prepare_logical_def circuit_defs)


text \<open>
  The shape of every circuit \<open>make_circuit_with_error\<close> returns: the preparation, the
  encoder, one bit-flip on the resolved qubit, the decoder, the three measurements.
\<close>

lemma make_circuit_eq:
  "make_circuit_with_error s e =
     (case prepare_logical (QuantumCircuit ''3q_bitflip_demo'' 3 3) s of
        Inl err \<Rightarrow> Inl err
      | Inr pre \<Rightarrow>
          (case bit_index 3 e of
             Inl err \<Rightarrow> Inl err
           | Inr q \<Rightarrow>
               Inr (pre\<lparr>data := data pre @
                     [Composite ''encode'' [CXGate 0 1, CXGate 0 2] [0, 1, 2],
                      XGate q,
                      Composite ''decode'' [CXGate 0 2, CXGate 0 1] [0, 1, 2],
                      Measure 0 0, Measure 1 1, Measure 2 2]\<rparr>)))"
  by (simp add: make_circuit_with_error_def encode_bitflip_eq decode_bitflip_eq
      prepare_logical_def circuit_defs)

text \<open>With one fault the pipeline is the program's circuit.\<close>

lemma pipeline_single: "pipeline_circuit s [e] = make_circuit_with_error s e"
  by (simp add: pipeline_circuit_def make_circuit_with_error_def bind_res_def split: sum.splits)

section \<open>Claims about the vote\<close>

text \<open>
  Claim C3, as the program has it: on a 3-bit outcome (a bitstring key of length 3)
  \<open>majority_from_key\<close> returns 1 if the number of 1-bits is strictly greater than half
  the length, and 0 otherwise. The function is a pure function of its key: the model is a
  HOL function of the key alone.
\<close>

theorem majority_three_bits:
  assumes "is_bitstring key" and "length key = 3"
  shows "majority_from_key key
         = Inr (if real (ones key) > real (length key) / 2 then 1 else 0)"
proof -
  have "(2 \<le> ones key) = (real (ones key) > real (length key) / 2)"
    using assms(2) by auto
  then show ?thesis
    using majority_of_bitstring [OF assms(1)] by simp
qed

theorem majority_three_bits_witness:
  "is_bitstring ''101'' \<and> length ''101'' = 3 \<and> real (ones ''101'') > real (length ''101'') / 2
   \<and> majority_from_key ''101'' = Inr 1"
  using majority_three_bits [of "''101''"]
  by (simp add: is_bitstring_def ones_def)

text \<open>
  The threshold of the vote is the constant 2, not half the length: on the 5-bit outcome
  \<open>00011\<close> two 1-bits are no majority of five, and the vote is 1 all the same.
\<close>

theorem majority_five_bits_counterexample:
  "is_bitstring ''00011'' \<and> odd (length ''00011'')
   \<and> \<not> real (ones ''00011'') > real (length ''00011'') / 2
   \<and> majority_from_key ''00011'' = Inr 1"
  by (simp add: is_bitstring_def ones_def majority_from_key_def py_int_char_def)

text \<open>
  Claim C4, as the program has it: \<open>majority_from_key\<close> checks no parity. On a bitstring of
  even length it fails with no error and returns a bit: 1 when the key holds at least two
  1-bits, 0 otherwise.
\<close>

theorem majority_even_length:
  assumes "is_bitstring key" and "even (length key)"
  shows "majority_from_key key = Inr (if 2 \<le> ones key then 1 else 0)"
  using assms(1) by (rule majority_of_bitstring)

theorem majority_even_length_witness:
  "is_bitstring ''0011'' \<and> even (length ''0011'') \<and> majority_from_key ''0011'' = Inr 1"
  using majority_even_length [of "''0011''"]
  by (simp add: is_bitstring_def ones_def)

text \<open>The 4-bit outcome \<open>0011\<close> is decoded to 1: no error is raised.\<close>

theorem majority_four_bits_counterexample:
  "length ''0011'' = 4 \<and> majority_from_key ''0011'' = Inr 1"
  by (simp add: majority_from_key_def py_int_char_def)

text \<open>
  Claim C8: two faults are not always corrected. There is a 3-bit outcome at Hamming
  distance 2 from \<open>000\<close> whose vote is 1, and one at distance 2 from \<open>111\<close> whose vote is
  0; and the pipeline run on \<open>zero\<close> with bit-flips on the two distinct qubits 1 and 2
  votes 1, where the prepared logical bit is 0.
\<close>

theorem two_faults_not_corrected:
  "(\<exists>key. is_bitstring key \<and> length key = 3 \<and> hamming key ''000'' = 2
          \<and> majority_from_key key = Inr 1)
   \<and> (\<exists>key. is_bitstring key \<and> length key = 3 \<and> hamming key ''111'' = 2
          \<and> majority_from_key key = Inr 0)
   \<and> logical_bit ''zero'' = Some 0 \<and> pipeline_vote ''zero'' [1, 2] = Some 1"
proof -
  have a: "is_bitstring ''011'' \<and> length ''011'' = 3 \<and> hamming ''011'' ''000'' = 2
            \<and> majority_from_key ''011'' = Inr 1"
    by (simp add: is_bitstring_def hamming_def majority_from_key_def py_int_char_def)
  have b: "is_bitstring ''100'' \<and> length ''100'' = 3 \<and> hamming ''100'' ''111'' = 2
            \<and> majority_from_key ''100'' = Inr 0"
    by (simp add: is_bitstring_def hamming_def majority_from_key_def py_int_char_def)
  have c: "logical_bit ''zero'' = Some 0"
    by (simp add: logical_bit_def)
  have d: "pipeline_vote ''zero'' [1, 2] = Some 1"
    by code_simp
  show ?thesis
    apply (intro conjI)
       apply (rule exI [of _ "''011''"], rule a)
      apply (rule exI [of _ "''100''"], rule b)
     apply (rule c)
    apply (rule d)
    done
qed

text \<open>
  Claim C10: the vote depends only on the count of 1-bits. For every bitstring key the
  vote of the reversed key is the vote of the key, and so is the vote of every
  permutation of the key; the reversal in \<open>majority_from_key\<close> never changes the
  decoded bit.
\<close>

theorem majority_permutation_invariant:
  assumes "is_bitstring key"
  shows "majority_from_key (rev key) = majority_from_key key
         \<and> (\<forall>key'. mset key' = mset key \<longrightarrow> majority_from_key key' = majority_from_key key)"
proof -
  have perm: "majority_from_key key' = majority_from_key key" if "mset key' = mset key" for key'
  proof -
    have "is_bitstring key' = is_bitstring key"
      using that by (rule is_bitstring_mset)
    then have b: "is_bitstring key'"
      using assms by simp
    have o: "ones key' = ones key"
      using that by (rule ones_mset)
    show ?thesis
      unfolding majority_of_bitstring [OF b] majority_of_bitstring [OF assms] o ..
  qed
  have "mset (rev key) = mset key" by simp
  then have r: "majority_from_key (rev key) = majority_from_key key" by (rule perm)
  show ?thesis
  proof (intro conjI allI impI)
    show "majority_from_key (rev key) = majority_from_key key" by (rule r)
  next
    fix key' assume "mset key' = mset key"
    then show "majority_from_key key' = majority_from_key key" by (rule perm)
  qed
qed

theorem majority_permutation_invariant_witness:
  "is_bitstring ''011'' \<and> majority_from_key (rev ''011'') = majority_from_key ''011''
   \<and> majority_from_key ''101'' = majority_from_key ''011''"
proof -
  have b: "is_bitstring ''011''" by (simp add: is_bitstring_def)
  have m: "mset ''101'' = mset ''011''" by simp
  have r: "majority_from_key (rev ''011'') = majority_from_key ''011''"
    using majority_permutation_invariant [OF b] by (rule conjunct1)
  have "\<forall>key'. mset key' = mset ''011'' \<longrightarrow> majority_from_key key' = majority_from_key ''011''"
    using majority_permutation_invariant [OF b] by (rule conjunct2)
  then have "mset ''101'' = mset ''011'' \<longrightarrow> majority_from_key ''101'' = majority_from_key ''011''"
    by (rule spec)
  then have p: "majority_from_key ''101'' = majority_from_key ''011''"
    using m by (rule mp)
  from b r p show ?thesis by (intro conjI)
qed

section \<open>Claims about the circuits\<close>

text \<open>
  Claim C1 says that after one injected bit-flip the majority vote of the measured outcome
  is the prepared logical bit, for \<open>zero\<close> and \<open>one\<close> and each of the qubits 0, 1, 2. The
  program misses it for \<open>zero\<close> with the fault on qubit 0: the decoder's controlled-NOTs
  are controlled by the flipped qubit 0 and flip qubits 2 and 1 as well, the measured key
  is \<open>111\<close>, and its vote is 1 where the prepared bit is 0.
\<close>

theorem single_fault_on_qubit_0_miscorrected:
  "make_circuit_with_error ''zero'' 0 =
     Inr \<lparr>qc_name = ''3q_bitflip_demo'', num_qubits = 3, num_clbits = 3,
          data = [Composite ''encode'' [CXGate 0 1, CXGate 0 2] [0, 1, 2],
                  XGate 0,
                  Composite ''decode'' [CXGate 0 2, CXGate 0 1] [0, 1, 2],
                  Measure 0 0, Measure 1 1, Measure 2 2]\<rparr>
   \<and> measured_key ''zero'' 0 = Some ''111''
   \<and> decoded_bit ''zero'' 0 = Some 1
   \<and> logical_bit ''zero'' = Some 0"
  by code_simp

text \<open>In the five other configurations the vote is the prepared bit.\<close>

lemma single_fault_other_configurations:
  "decoded_bit ''zero'' 1 = logical_bit ''zero'' \<and> decoded_bit ''zero'' 2 = logical_bit ''zero''
   \<and> decoded_bit ''one'' 0 = logical_bit ''one'' \<and> decoded_bit ''one'' 1 = logical_bit ''one''
   \<and> decoded_bit ''one'' 2 = logical_bit ''one''"
  by code_simp

text \<open>
  Claim C2: the decoder is the encoder's sequence of controlled-NOTs reversed (the same
  control and target pairs, in the opposite order), and with no injected fault decoding
  after encoding is the identity on every basis state of the three qubits, as a flat gate
  list and as the two appended instructions. Prepared from \<open>zero\<close> or \<open>one\<close> and measured,
  the round trip leaves the qubits in the prepared basis state and measures exactly it.
\<close>

theorem decode_reverses_encode:
  "\<exists>enc dec.
     encode_bitflip m = Inr enc \<and> decode_bitflip = Inr dec
     \<and> data enc = [CXGate 0 1, CXGate 0 2]
     \<and> data dec = rev (data enc)
     \<and> (\<forall>a b c cs. exec_list (data enc @ data dec) ([a, b, c], cs) = Some ([a, b, c], cs))
     \<and> (\<forall>a b c cs.
           exec_list [snd (to_instruction enc) [0, 1, 2], snd (to_instruction dec) [0, 1, 2]]
             ([a, b, c], cs) = Some ([a, b, c], cs))
     \<and> (\<exists>qc. pipeline_circuit ''zero'' [] = Inr qc
            \<and> exec_list (data qc) ([False, False, False], [False, False, False])
                = Some ([False, False, False], [False, False, False])
            \<and> ideal_outcome qc = Some ''000'')
     \<and> (\<exists>qc. pipeline_circuit ''one'' [] = Inr qc
            \<and> exec_list (data qc) ([False, False, False], [False, False, False])
                = Some ([True, False, False], [True, False, False])
            \<and> ideal_outcome qc = Some ''001'')"
proof -
  let ?enc = "\<lparr>qc_name = ''encode'', num_qubits = 3, num_clbits = 0,
                data = [CXGate 0 1, CXGate 0 2]\<rparr>"
  let ?dec = "\<lparr>qc_name = ''decode'', num_qubits = 3, num_clbits = 0,
                data = [CXGate 0 2, CXGate 0 1]\<rparr>"
  have e: "encode_bitflip m = Inr ?enc" by (rule encode_bitflip_eq)
  have d: "decode_bitflip = Inr ?dec" by (rule decode_bitflip_eq)
  have de: "data ?enc = [CXGate 0 1, CXGate 0 2]" by simp
  have dd: "data ?dec = rev (data ?enc)" by simp
  have flat: "\<forall>a b c cs. exec_list (data ?enc @ data ?dec) ([a, b, c], cs) = Some ([a, b, c], cs)"
    using exec_encode_decode by simp
  have comp: "\<forall>a b c cs.
      exec_list [snd (to_instruction ?enc) [0, 1, 2], snd (to_instruction ?dec) [0, 1, 2]]
        ([a, b, c], cs) = Some ([a, b, c], cs)"
    using exec_encode_decode_composite by (simp add: to_instruction_def)
  have z: "\<exists>qc. pipeline_circuit ''zero'' [] = Inr qc
            \<and> exec_list (data qc) ([False, False, False], [False, False, False])
                = Some ([False, False, False], [False, False, False])
            \<and> ideal_outcome qc = Some ''000''"
    by (simp add: pipeline_circuit_def prepare_logical_def encode_bitflip_eq decode_bitflip_eq
        circuit_defs ideal_outcome_def format_key_def scatter_def numeral_3_eq_3)
  have o: "\<exists>qc. pipeline_circuit ''one'' [] = Inr qc
            \<and> exec_list (data qc) ([False, False, False], [False, False, False])
                = Some ([True, False, False], [True, False, False])
            \<and> ideal_outcome qc = Some ''001''"
    by (simp add: pipeline_circuit_def prepare_logical_def encode_bitflip_eq decode_bitflip_eq
        circuit_defs ideal_outcome_def format_key_def scatter_def numeral_3_eq_3)
  show ?thesis
    apply (rule exI [of _ ?enc], rule exI [of _ ?dec])
    apply (intro conjI)
           apply (rule e)
          apply (rule d)
         apply (rule de)
        apply (rule dd)
       apply (rule flat)
      apply (rule comp)
     apply (rule z)
    apply (rule o)
    done
qed

text \<open>
  Claim C5, as the program has it: the preparation adds nothing for \<open>zero\<close>, one bit-flip
  on qubit 0 for \<open>one\<close>, one Hadamard gate on qubit 0 for \<open>plus\<close>; every other string
  fails with a \<open>ValueError\<close> whose message is one fixed text. The text names the allowed
  set (\<open>zero\<close>, \<open>one\<close>, \<open>plus\<close>); it does not depend on the offending value.
\<close>

theorem prepare_logical_cases:
  "prepare_logical (QuantumCircuit nm (Suc n) nc) ''zero'' = Inr (QuantumCircuit nm (Suc n) nc)
   \<and> data (QuantumCircuit nm (Suc n) nc) = []
   \<and> prepare_logical (QuantumCircuit nm (Suc n) nc) ''one''
       = Inr ((QuantumCircuit nm (Suc n) nc)\<lparr>data := [XGate 0]\<rparr>)
   \<and> prepare_logical (QuantumCircuit nm (Suc n) nc) ''plus''
       = Inr ((QuantumCircuit nm (Suc n) nc)\<lparr>data := [HGate 0]\<rparr>)
   \<and> (state_prep \<noteq> ''zero'' \<and> state_prep \<noteq> ''one'' \<and> state_prep \<noteq> ''plus'' \<longrightarrow>
        prepare_logical qc state_prep
        = Inl (ValueError ''state_prep not in ['zero','one','plus']''))
   \<and> sublist ''zero'' ''state_prep not in ['zero','one','plus']''
   \<and> sublist ''one'' ''state_prep not in ['zero','one','plus']''
   \<and> sublist ''plus'' ''state_prep not in ['zero','one','plus']''"
proof -
  have z: "sublist ''zero'' ''state_prep not in ['zero','one','plus']''" by code_simp
  have o: "sublist ''one'' ''state_prep not in ['zero','one','plus']''" by code_simp
  have p: "sublist ''plus'' ''state_prep not in ['zero','one','plus']''" by code_simp
  have other: "state_prep \<noteq> ''zero'' \<and> state_prep \<noteq> ''one'' \<and> state_prep \<noteq> ''plus'' \<longrightarrow>
        prepare_logical qc state_prep
        = Inl (ValueError ''state_prep not in ['zero','one','plus']'')"
    by (simp add: prepare_logical_def)
  have d: "data (QuantumCircuit nm (Suc n) nc) = []" by (simp add: QuantumCircuit_def)
  have pz: "prepare_logical (QuantumCircuit nm (Suc n) nc) ''zero''
      = Inr (QuantumCircuit nm (Suc n) nc)"
    by (simp add: prepare_logical_eq)
  have po: "prepare_logical (QuantumCircuit nm (Suc n) nc) ''one''
      = Inr ((QuantumCircuit nm (Suc n) nc)\<lparr>data := [XGate 0]\<rparr>)"
    by (simp add: prepare_logical_eq)
  have pp: "prepare_logical (QuantumCircuit nm (Suc n) nc) ''plus''
      = Inr ((QuantumCircuit nm (Suc n) nc)\<lparr>data := [HGate 0]\<rparr>)"
    by (simp add: prepare_logical_eq)
  from pz d po pp other z o p show ?thesis
    by (intro conjI)
qed

theorem prepare_logical_cases_witness:
  "''invalid'' \<noteq> ''zero'' \<and> ''invalid'' \<noteq> ''one'' \<and> ''invalid'' \<noteq> ''plus''
   \<and> prepare_logical (QuantumCircuit ''3q_bitflip_demo'' 3 3) ''invalid''
       = Inl (ValueError ''state_prep not in ['zero','one','plus']'')
   \<and> prepare_logical (QuantumCircuit ''3q_bitflip_demo'' 3 3) ''one''
       = Inr ((QuantumCircuit ''3q_bitflip_demo'' 3 3)\<lparr>data := [XGate 0]\<rparr>)"
  using prepare_logical_cases [of "''3q_bitflip_demo''" 2 3 "''invalid''"
      "QuantumCircuit ''3q_bitflip_demo'' 3 3"]
  by (simp add: numeral_3_eq_3)

text \<open>The message raised for \<open>invalid\<close> does not contain \<open>invalid\<close>.\<close>

theorem prepare_logical_message_counterexample:
  "prepare_logical (QuantumCircuit ''3q_bitflip_demo'' 3 3) ''invalid''
     = Inl (ValueError ''state_prep not in ['zero','one','plus']'')
   \<and> \<not> sublist ''invalid'' ''state_prep not in ['zero','one','plus']''"
proof -
  have "\<not> sublist ''invalid'' ''state_prep not in ['zero','one','plus']''" by code_simp
  then show ?thesis by (simp add: prepare_logical_def)
qed

text \<open>
  Claim C6, as the program has it: for a supported state the circuit is the preparation,
  then the encoder, then exactly one bit-flip, then the decoder, then the measurements.
  An index \<open>0 \<le> error_on < 3\<close> flips that qubit. The program checks no range of its own:
  an index from -3 to -1 is resolved from the end of the qubit list (-1 is qubit 2), and
  every index below -3 or above 2 fails with the library's \<open>CircuitError\<close>.
\<close>

theorem injection_position_and_range:
  assumes "state_prep = ''zero'' \<or> state_prep = ''one'' \<or> state_prep = ''plus''"
  shows "\<exists>pre.
     prepare_logical (QuantumCircuit ''3q_bitflip_demo'' 3 3) state_prep = Inr pre
     \<and> data pre = (if state_prep = ''zero'' then [] else if state_prep = ''one'' then [XGate 0]
                   else [HGate 0])
     \<and> (0 \<le> error_on \<and> error_on < 3 \<longrightarrow>
          make_circuit_with_error state_prep error_on =
            Inr (pre\<lparr>data := data pre @
                  [Composite ''encode'' [CXGate 0 1, CXGate 0 2] [0, 1, 2],
                   XGate (nat error_on),
                   Composite ''decode'' [CXGate 0 2, CXGate 0 1] [0, 1, 2],
                   Measure 0 0, Measure 1 1, Measure 2 2]\<rparr>))
     \<and> (- 3 \<le> error_on \<and> error_on < 0 \<longrightarrow>
          make_circuit_with_error state_prep error_on =
            Inr (pre\<lparr>data := data pre @
                  [Composite ''encode'' [CXGate 0 1, CXGate 0 2] [0, 1, 2],
                   XGate (nat (3 + error_on)),
                   Composite ''decode'' [CXGate 0 2, CXGate 0 1] [0, 1, 2],
                   Measure 0 0, Measure 1 1, Measure 2 2]\<rparr>))
     \<and> (error_on < - 3 \<or> 3 \<le> error_on \<longrightarrow>
          make_circuit_with_error state_prep error_on = Inl CircuitError)"
proof -
  obtain pre where pre: "prepare_logical (QuantumCircuit ''3q_bitflip_demo'' 3 3) state_prep = Inr pre"
    and dat: "data pre = (if state_prep = ''zero'' then [] else if state_prep = ''one'' then [XGate 0]
                   else [HGate 0])"
    using assms by (auto simp: prepare_logical_def circuit_defs)
  have nonneg: "bit_index 3 error_on = Inr (nat error_on)" if "0 \<le> error_on \<and> error_on < 3"
    using that by (simp add: bit_index_def)
  have neg: "bit_index 3 error_on = Inr (nat (3 + error_on))" if "- 3 \<le> error_on \<and> error_on < 0"
    using that by (simp add: bit_index_def)
  have out: "bit_index 3 error_on = Inl CircuitError" if "error_on < - 3 \<or> 3 \<le> error_on"
    using that by (auto simp: bit_index_def)
  show ?thesis
  proof (intro exI [of _ pre] conjI impI)
    show "prepare_logical (QuantumCircuit ''3q_bitflip_demo'' 3 3) state_prep = Inr pre"
      by (rule pre)
  next
    show "data pre = (if state_prep = ''zero'' then [] else if state_prep = ''one'' then [XGate 0]
                   else [HGate 0])"
      by (rule dat)
  next
    assume "0 \<le> error_on \<and> error_on < 3"
    then show "make_circuit_with_error state_prep error_on =
            Inr (pre\<lparr>data := data pre @
                  [Composite ''encode'' [CXGate 0 1, CXGate 0 2] [0, 1, 2],
                   XGate (nat error_on),
                   Composite ''decode'' [CXGate 0 2, CXGate 0 1] [0, 1, 2],
                   Measure 0 0, Measure 1 1, Measure 2 2]\<rparr>)"
      by (simp only: make_circuit_eq pre nonneg sum.case)
  next
    assume "- 3 \<le> error_on \<and> error_on < 0"
    then show "make_circuit_with_error state_prep error_on =
            Inr (pre\<lparr>data := data pre @
                  [Composite ''encode'' [CXGate 0 1, CXGate 0 2] [0, 1, 2],
                   XGate (nat (3 + error_on)),
                   Composite ''decode'' [CXGate 0 2, CXGate 0 1] [0, 1, 2],
                   Measure 0 0, Measure 1 1, Measure 2 2]\<rparr>)"
      by (simp only: make_circuit_eq pre neg sum.case)
  next
    assume "error_on < - 3 \<or> 3 \<le> error_on"
    then show "make_circuit_with_error state_prep error_on = Inl CircuitError"
      by (simp only: make_circuit_eq pre out sum.case)
  qed
qed

theorem injection_position_and_range_witness:
  "make_circuit_with_error ''one'' 1 =
     Inr \<lparr>qc_name = ''3q_bitflip_demo'', num_qubits = 3, num_clbits = 3,
          data = [XGate 0,
                  Composite ''encode'' [CXGate 0 1, CXGate 0 2] [0, 1, 2],
                  XGate 1,
                  Composite ''decode'' [CXGate 0 2, CXGate 0 1] [0, 1, 2],
                  Measure 0 0, Measure 1 1, Measure 2 2]\<rparr>
   \<and> make_circuit_with_error ''one'' (- 2) =
     Inr \<lparr>qc_name = ''3q_bitflip_demo'', num_qubits = 3, num_clbits = 3,
          data = [XGate 0,
                  Composite ''encode'' [CXGate 0 1, CXGate 0 2] [0, 1, 2],
                  XGate 1,
                  Composite ''decode'' [CXGate 0 2, CXGate 0 1] [0, 1, 2],
                  Measure 0 0, Measure 1 1, Measure 2 2]\<rparr>
   \<and> make_circuit_with_error ''one'' 5 = Inl CircuitError"
  using injection_position_and_range [of "''one''" 1]
    injection_position_and_range [of "''one''" "- 2"]
    injection_position_and_range [of "''one''" 5]
  by (auto simp: prepare_logical_def circuit_defs)

text \<open>The index -1 lies outside 0..2, and the injection succeeds: it flips qubit 2.\<close>

theorem injection_negative_index_counterexample:
  "\<not> (0 \<le> (- 1 :: int) \<and> (- 1 :: int) < 3)
   \<and> make_circuit_with_error ''zero'' (- 1) =
     Inr \<lparr>qc_name = ''3q_bitflip_demo'', num_qubits = 3, num_clbits = 3,
          data = [Composite ''encode'' [CXGate 0 1, CXGate 0 2] [0, 1, 2],
                  XGate 2,
                  Composite ''decode'' [CXGate 0 2, CXGate 0 1] [0, 1, 2],
                  Measure 0 0, Measure 1 1, Measure 2 2]\<rparr>"
  by (simp add: make_circuit_eq prepare_logical_def circuit_defs)

section \<open>Facts about the harness\<close>

text \<open>The loop over the counts of \<open>plus\<close> leaves \<^verbatim>\<open>correct\<close> as it found it.\<close>

lemma tally_loop_unchanged: "tally_loop cnts correct = correct"
  by (induction cnts) simp_all

text \<open>The three circuits \<open>run_demo\<close> builds, each with the fault on qubit 1.\<close>

lemma demo_circuits:
  "make_circuit_with_error ''zero'' 1 =
     Inr \<lparr>qc_name = ''3q_bitflip_demo'', num_qubits = 3, num_clbits = 3,
          data = [Composite ''encode'' [CXGate 0 1, CXGate 0 2] [0, 1, 2], XGate 1,
                  Composite ''decode'' [CXGate 0 2, CXGate 0 1] [0, 1, 2],
                  Measure 0 0, Measure 1 1, Measure 2 2]\<rparr>"
  "make_circuit_with_error ''one'' 1 =
     Inr \<lparr>qc_name = ''3q_bitflip_demo'', num_qubits = 3, num_clbits = 3,
          data = [XGate 0, Composite ''encode'' [CXGate 0 1, CXGate 0 2] [0, 1, 2], XGate 1,
                  Composite ''decode'' [CXGate 0 2, CXGate 0 1] [0, 1, 2],
                  Measure 0 0, Measure 1 1, Measure 2 2]\<rparr>"
  "make_circuit_with_error ''plus'' 1 =
     Inr \<lparr>qc_name = ''3q_bitflip_demo'', num_qubits = 3, num_clbits = 3,
          data = [HGate 0, Composite ''encode'' [CXGate 0 1, CXGate 0 2] [0, 1, 2], XGate 1,
                  Composite ''decode'' [CXGate 0 2, CXGate 0 1] [0, 1, 2],
                  Measure 0 0, Measure 1 1, Measure 2 2]\<rparr>"
  by (simp_all add: make_circuit_eq prepare_logical_def circuit_defs)

text \<open>The three trials: one backend call each, in the order of \<open>states\<close>.\<close>

lemma run_trials_states:
  "run_trials ex shots states [] b =
     (case make_circuit_with_error ''zero'' 1 of Inl e \<Rightarrow> (Inl e, b) | Inr c0 \<Rightarrow>
     (case make_circuit_with_error ''one'' 1 of Inl e \<Rightarrow> (Inl e, b) | Inr c1 \<Rightarrow>
     (case make_circuit_with_error ''plus'' 1 of Inl e \<Rightarrow> (Inl e, b) | Inr c2 \<Rightarrow>
     (case ex b c0 shots of
        (Inl e, b1) \<Rightarrow> (Inl e, b1)
      | (Inr h0, b1) \<Rightarrow>
          (case ex b1 c1 shots of
             (Inl e, b2) \<Rightarrow> (Inl e, b2)
           | (Inr h1, b2) \<Rightarrow>
               (case ex b2 c2 shots of
                  (Inl e, b3) \<Rightarrow> (Inl e, b3)
                | (Inr h2, b3) \<Rightarrow>
                    (Inr [(''zero'', h0), (''one'', h1), (''plus'', h2)], b3)))))))"
  by (simp add: states_def demo_circuits split: prod.splits sum.splits)

text \<open>
  A run that returns made three accepted backend calls and drew three histograms, and its
  report is this one.
\<close>

lemma run_demo_success:
  assumes "run_demo ex plt b shots = (Inr r, b')"
  shows "\<exists>c0 c1 c2 h0 h1 h2 b1 b2.
     make_circuit_with_error ''zero'' 1 = Inr c0 \<and> make_circuit_with_error ''one'' 1 = Inr c1
     \<and> make_circuit_with_error ''plus'' 1 = Inr c2
     \<and> ex b c0 shots = (Inr h0, b1) \<and> ex b1 c1 shots = (Inr h1, b2)
     \<and> ex b2 c2 shots = (Inr h2, b')
     \<and> plt h0 = None \<and> plt h1 = None \<and> plt h2 = None
     \<and> r = \<lparr>histograms = [(''zero'', h0), (''one'', h1), (''plus'', h2)],
              shown = [Plot ''Input |zero> with X on qubit 1'' h0,
                       Plot ''Input |one> with X on qubit 1'' h1,
                       Plot ''Input |plus> with X on qubit 1'' h2,
                       Show,
                       PrintText ''Raw counts for |+> (Z-basis measurement):'',
                       PrintCounts h2],
              final_total = sum_list (map snd h2),
              final_correct = 0\<rparr>"
  using assms
  by (auto simp: run_demo_def run_trials_states demo_circuits dict_get_def plot_title_def
      tally_loop_unchanged states_def bind_res_def split: prod.splits sum.splits option.splits)




section \<open>Claims about the harness\<close>

text \<open>
  Claim C7: for \<open>plus\<close> the harness reports the raw counts only. Whatever the backend, its
  counts and the plotter, a run that returns has shown three histograms of the counts as
  the backend gave them, then the figure, then the header line and the counts of \<open>plus\<close>,
  and nothing more; the loop over the counts of \<open>plus\<close> accumulates nothing, so
  \<^verbatim>\<open>correct\<close> ends at 0, and no tally is shown.
\<close>

theorem plus_reports_raw_counts_only:
  assumes "run_demo ex plt b shots = (Inr r, b')"
  shows "\<exists>circ counts_plus b2 h0 h1.
     make_circuit_with_error ''plus'' 1 = Inr circ
     \<and> ex b2 circ shots = (Inr counts_plus, b')
     \<and> map_of (histograms r) ''plus'' = Some counts_plus
     \<and> shown r = [Plot ''Input |zero> with X on qubit 1'' h0,
                  Plot ''Input |one> with X on qubit 1'' h1,
                  Plot ''Input |plus> with X on qubit 1'' counts_plus,
                  Show,
                  PrintText ''Raw counts for |+> (Z-basis measurement):'',
                  PrintCounts counts_plus]
     \<and> final_correct r = tally_loop counts_plus 0
     \<and> final_correct r = 0"
proof -
  from run_demo_success [OF assms] obtain c0 c1 c2 h0 h1 h2 b1 b2 where
    c: "make_circuit_with_error ''plus'' 1 = Inr c2"
    and e: "ex b2 c2 shots = (Inr h2, b')"
    and r: "r = \<lparr>histograms = [(''zero'', h0), (''one'', h1), (''plus'', h2)],
              shown = [Plot ''Input |zero> with X on qubit 1'' h0,
                       Plot ''Input |one> with X on qubit 1'' h1,
                       Plot ''Input |plus> with X on qubit 1'' h2,
                       Show,
                       PrintText ''Raw counts for |+> (Z-basis measurement):'',
                       PrintCounts h2],
              final_total = sum_list (map snd h2),
              final_correct = 0\<rparr>"
    by blast
  have m: "map_of (histograms r) ''plus'' = Some h2"
    unfolding r by simp
  have s: "shown r = [Plot ''Input |zero> with X on qubit 1'' h0,
                  Plot ''Input |one> with X on qubit 1'' h1,
                  Plot ''Input |plus> with X on qubit 1'' h2,
                  Show,
                  PrintText ''Raw counts for |+> (Z-basis measurement):'',
                  PrintCounts h2]"
    unfolding r by simp
  have t: "final_correct r = tally_loop h2 0"
    unfolding r by (simp add: tally_loop_unchanged)
  have z: "final_correct r = 0"
    unfolding r by simp
  from c e m s t z show ?thesis by blast
qed

theorem plus_reports_raw_counts_only_witness:
  "\<exists>r. run_demo (fixed_backend [(''010'', 2), (''110'', 3)]) plot_nonempty () 5 = (Inr r, ())
     \<and> shown r = [Plot ''Input |zero> with X on qubit 1'' [(''010'', 2), (''110'', 3)],
                  Plot ''Input |one> with X on qubit 1'' [(''010'', 2), (''110'', 3)],
                  Plot ''Input |plus> with X on qubit 1'' [(''010'', 2), (''110'', 3)],
                  Show,
                  PrintText ''Raw counts for |+> (Z-basis measurement):'',
                  PrintCounts [(''010'', 2), (''110'', 3)]]
     \<and> final_correct r = 0"
proof -
  obtain r where run:
      "run_demo (fixed_backend [(''010'', 2), (''110'', 3)]) plot_nonempty () 5 = (Inr r, ())"
    and sh: "shown r = [Plot ''Input |zero> with X on qubit 1'' [(''010'', 2), (''110'', 3)],
                  Plot ''Input |one> with X on qubit 1'' [(''010'', 2), (''110'', 3)],
                  Plot ''Input |plus> with X on qubit 1'' [(''010'', 2), (''110'', 3)],
                  Show,
                  PrintText ''Raw counts for |+> (Z-basis measurement):'',
                  PrintCounts [(''010'', 2), (''110'', 3)]]"
    by (simp add: run_demo_def run_trials_states demo_circuits fixed_backend_def dict_get_def
        states_def bind_res_def plot_title_def plot_nonempty_def)
  from plus_reports_raw_counts_only [OF run] have f: "final_correct r = 0"
    by blast
  from run sh f show ?thesis by blast
qed




end
